theory Spec2Isabelle
  imports Complex_Main
begin

section \<open>Convergence checks of krotov (src/krotov/convergence.py)\<close>

text \<open>
  The module builds \<open>check_convergence\<close> routines: closures that receive the
  \<open>Result\<close> object of the optimization and return \<open>None\<close> (continue) or a message
  string (stop). Python's exceptions are values of a sum type (\<open>Inl\<close> the exception),
  the one side effect of the module, \<open>result.dump(outfile)\<close>, is a log of the paths
  that were dumped to, threaded through the call.
\<close>

subsection \<open>Python values and exceptions\<close>

text \<open>
  The exception classes the module names or can meet. \<open>PathAccessError\<close> is glom's
  error for a path that does not resolve; in glom it is a subclass of \<open>GlomError\<close>,
  \<open>AttributeError\<close>, \<open>KeyError\<close> and \<open>IndexError\<close>. \<open>IOError\<close> stands for \<open>OSError\<close>
  and its subclasses (in Python 3 the two names are the same class). \<open>Unmodelled\<close> is
  not a Python exception: it marks a construct of \<open>str.format\<close> outside the fragment
  modelled below, about which nothing is stated.
\<close>

datatype exc_class =
    AttributeError | KeyError | IndexError | GlomError | PathAccessError
  | TypeError | ValueError | OverflowError | IOError | OtherError | Unmodelled

text \<open>An exception: its class and what \<open>str()\<close> gives for it.\<close>

datatype pyerr = Exc exc_class string

fun exc_cls :: "pyerr \<Rightarrow> exc_class" where
  "exc_cls (Exc c m) = c"

fun exc_str :: "pyerr \<Rightarrow> string" where
  "exc_str (Exc c m) = m"

text \<open>
  A Python \<open>float\<close>: a finite double, given by the real number it is equal to (both
  zeros are \<open>Finite 0\<close>), an infinity or a NaN.
\<close>

datatype pyfloat = Finite real | PosInf | NegInf | NaN

text \<open>
  The values an extraction can yield: \<open>None\<close>, an \<open>int\<close> (unbounded; \<open>bool\<close> is an
  \<open>int\<close>), a \<open>float\<close>, and strings and lists for the values that are no numbers.
\<close>

datatype pyval = PNone | PInt int | PFloat pyfloat | PStr string | PList "pyval list"

text \<open>
  The part of \<open>krotov.result.Result\<close> the module reads: \<open>iters\<close>, \<open>info_vals\<close> and the
  method \<open>dump\<close>. \<open>dump r path\<close> is what \<open>r.dump(path)\<close> raises (\<open>None\<close> when the
  file is written).
\<close>

record result =
  iters :: "int list"
  info_vals :: "pyval list"
  dump :: "string \<Rightarrow> pyerr option"

subsection \<open>Decimal text of integers\<close>

definition digit_char :: "nat \<Rightarrow> char" where
  "digit_char d = ''0123456789'' ! d"

fun str_nat :: "nat \<Rightarrow> string" where
  "str_nat n = (if n < 10 then [digit_char n] else str_nat (n div 10) @ [digit_char (n mod 10)])"

declare str_nat.simps [simp del]

text \<open>\<open>str(i)\<close> for an \<open>int\<close>.\<close>

definition str_int :: "int \<Rightarrow> string" where
  "str_int i = (if i < 0 then CHR ''-'' # str_nat (nat (- i)) else str_nat (nat i))"

subsection \<open>Extraction: \<open>glom.glom(result, spec, **kwargs)\<close>\<close>

text \<open>
  \<open>xs[i]\<close> on a Python list: a negative index counts from the end, an index out of
  range raises \<open>IndexError\<close>.
\<close>

definition py_index :: "'a list \<Rightarrow> int \<Rightarrow> pyerr + 'a" where
  "py_index xs i =
     (let j = (if i < 0 then i + int (length xs) else i) in
      if j < 0 \<or> int (length xs) \<le> j
      then Inl (Exc IndexError ''list index out of range'')
      else Inr (xs ! nat j))"

text \<open>
  A spec is either a callable, applied to the \<open>Result\<close> (it may raise anything), or
  the tuple \<open>('info_vals', glom.T[i])\<close> of the module's defaults. glom is a library
  outside the repository: a callable also stands for any other glom spec and for
  the keyword arguments passed on to glom, whose whole effect is the outcome of
  the call. The string of a callable is what \<open>str()\<close> prints for it.
\<close>

datatype spec = Callable "result \<Rightarrow> pyerr + pyval" string | InfoValsT int

text \<open>
  glom turns the \<open>IndexError\<close> of \<open>T[i]\<close> into its \<open>PathAccessError\<close>; the
  message names the index, so that the failures of two specs differ.
\<close>

definition path_access_error :: "int \<Rightarrow> pyerr" where
  "path_access_error i =
     Exc PathAccessError
       (''could not access '' @ str_int i @ '', part 0 of T['' @ str_int i @
        ''], got error: IndexError('' @ [CHR 0x27] @ ''list index out of range'' @
        [CHR 0x27] @ '')'')"

fun glom :: "result \<Rightarrow> spec \<Rightarrow> pyerr + pyval" where
  "glom r (Callable f s) = f r"
| "glom r (InfoValsT i) =
     (case py_index (info_vals r) i of
        Inl e \<Rightarrow> Inl (path_access_error i)
      | Inr v \<Rightarrow> Inr v)"

fun str_spec :: "spec \<Rightarrow> string" where
  "str_spec (Callable f s) = s"
| "str_spec (InfoValsT i) =
     ''('' @ [CHR 0x27] @ ''info_vals'' @ [CHR 0x27] @ '', T['' @ str_int i @ ''])''"

subsection \<open>Numbers\<close>

definition is_digit :: "char \<Rightarrow> bool" where
  "is_digit c = ((48::nat) \<le> of_char c \<and> (of_char c :: nat) \<le> 57)"

definition digits_val :: "string \<Rightarrow> int" where
  "digits_val ds = foldl (\<lambda>a c. 10 * a + (of_char c - 48)) 0 ds"

text \<open>
  The operations of Python that round. They are arguments of the model, so that
  what is proved holds of them whatever they compute: \<open>float(s)\<close> for a string,
  \<open>float(i)\<close> for an \<open>int\<close> (\<open>OverflowError\<close> for an \<open>int\<close> beyond the doubles) and the
  subtraction of two floats.
\<close>

record float_ops =
  float_of_str :: "string \<Rightarrow> pyerr + pyfloat"
  float_of_int :: "int \<Rightarrow> pyerr + pyfloat"
  float_sub :: "pyfloat \<Rightarrow> pyfloat \<Rightarrow> pyfloat"

text \<open>An \<open>int\<close> up to \<open>2 ^ 53\<close> in size is a double: its conversion is exact.\<close>

definition int_to_float :: "float_ops \<Rightarrow> int \<Rightarrow> pyerr + pyfloat" where
  "int_to_float fl i =
     (if \<bar>i\<bar> \<le> 2 ^ 53 then Inr (Finite (real_of_int i)) else float_of_int fl i)"

text \<open>
  \<open>a < b\<close> on floats: the order of the real numbers, the infinities at its ends, and
  false whenever a NaN is compared. \<open>abs\<close> on floats. Neither rounds.
\<close>

fun flt :: "pyfloat \<Rightarrow> pyfloat \<Rightarrow> bool" where
  "flt NaN b = False"
| "flt a NaN = False"
| "flt (Finite a) (Finite b) = (a < b)"
| "flt (Finite a) PosInf = True"
| "flt (Finite a) NegInf = False"
| "flt NegInf NegInf = False"
| "flt NegInf b = True"
| "flt PosInf b = False"

fun fabs :: "pyfloat \<Rightarrow> pyfloat" where
  "fabs (Finite a) = Finite \<bar>a\<bar>"
| "fabs PosInf = PosInf"
| "fabs NegInf = PosInf"
| "fabs NaN = NaN"

fun is_num :: "pyval \<Rightarrow> bool" where
  "is_num (PInt i) = True"
| "is_num (PFloat a) = True"
| "is_num v = False"

text \<open>
  \<open>v < x\<close> and \<open>v > x\<close> for a number \<open>v\<close> and a float \<open>x\<close>. Python compares an \<open>int\<close>
  with a float by their exact values, without converting the \<open>int\<close>.
\<close>

fun num_lt :: "pyval \<Rightarrow> pyfloat \<Rightarrow> bool" where
  "num_lt (PInt i) x = flt (Finite (real_of_int i)) x"
| "num_lt (PFloat a) x = flt a x"
| "num_lt v x = False"

fun num_gt :: "pyval \<Rightarrow> pyfloat \<Rightarrow> bool" where
  "num_gt (PInt i) x = flt x (Finite (real_of_int i))"
| "num_gt (PFloat a) x = flt x a"
| "num_gt v x = False"

fun num_abs :: "pyval \<Rightarrow> pyval" where
  "num_abs (PInt i) = PInt \<bar>i\<bar>"
| "num_abs (PFloat a) = PFloat (fabs a)"
| "num_abs v = v"

text \<open>
  The operators as the module applies them: defined on numbers, a \<open>TypeError\<close> on
  \<open>None\<close>, strings and lists. \<open>v1 - v0\<close> is exact on two \<open>int\<close>s, the float
  subtraction on two floats, and on an \<open>int\<close> and a float the \<open>int\<close> is converted
  first.
\<close>

definition py_lt :: "pyval \<Rightarrow> pyfloat \<Rightarrow> pyerr + bool" where
  "py_lt v x =
     (if is_num v then Inr (num_lt v x)
      else Inl (Exc TypeError ''< not supported between these instances''))"

definition py_gt :: "pyval \<Rightarrow> pyfloat \<Rightarrow> pyerr + bool" where
  "py_gt v x =
     (if is_num v then Inr (num_gt v x)
      else Inl (Exc TypeError ''> not supported between these instances''))"

fun py_sub :: "float_ops \<Rightarrow> pyval \<Rightarrow> pyval \<Rightarrow> pyerr + pyval" where
  "py_sub fl (PInt a) (PInt b) = Inr (PInt (a - b))"
| "py_sub fl (PFloat a) (PFloat b) = Inr (PFloat (float_sub fl a b))"
| "py_sub fl (PInt a) (PFloat b) =
     (case int_to_float fl a of
        Inl e \<Rightarrow> Inl e
      | Inr a' \<Rightarrow> Inr (PFloat (float_sub fl a' b)))"
| "py_sub fl (PFloat a) (PInt b) =
     (case int_to_float fl b of
        Inl e \<Rightarrow> Inl e
      | Inr b' \<Rightarrow> Inr (PFloat (float_sub fl a b')))"
| "py_sub fl v w = Inl (Exc TypeError ''unsupported operand type(s) for -'')"

definition py_abs :: "pyval \<Rightarrow> pyerr + pyval" where
  "py_abs v =
     (if is_num v then Inr (num_abs v)
      else Inl (Exc TypeError ''bad operand type for abs()''))"

fun is_None :: "pyval \<Rightarrow> bool" where
  "is_None PNone = True"
| "is_None v = False"

subsection \<open>The limit: \<open>float(limit)\<close> and \<open>'%s' % limit\<close>\<close>

text \<open>
  \<open>limit\<close> is a string, an \<open>int\<close> (the module passes \<open>0\<close>) or a \<open>float\<close>. Python's
  shortest-repr printing of a float is not modelled: a float limit carries the text
  \<open>str()\<close> gives for it.
\<close>

datatype limit = LimitStr string | LimitInt int | LimitFloat pyfloat string

fun py_float :: "float_ops \<Rightarrow> limit \<Rightarrow> pyerr + pyfloat" where
  "py_float fl (LimitStr s) = float_of_str fl s"
| "py_float fl (LimitInt i) = int_to_float fl i"
| "py_float fl (LimitFloat x s) = Inr x"

fun str_limit :: "limit \<Rightarrow> string" where
  "str_limit (LimitStr s) = s"
| "str_limit (LimitInt i) = str_int i"
| "str_limit (LimitFloat x s) = s"

subsection \<open>\<open>Or\<close>\<close>

text \<open>
  A \<open>check_convergence\<close> routine receives the \<open>Result\<close> and returns \<open>None\<close> or a
  message; it may raise and it may have an effect on the world \<open>'w\<close> (for
  \<open>dump_result\<close>, the files written).
\<close>

type_synonym 'w check = "result \<Rightarrow> 'w \<Rightarrow> (pyerr + string option) \<times> 'w"

text \<open>\<open>bool(msg)\<close>: \<open>None\<close> and the empty string are false.\<close>

fun truthy :: "string option \<Rightarrow> bool" where
  "truthy None = False"
| "truthy (Some s) = (s \<noteq> [])"

text \<open>
  The closure \<open>Or\<close> returns: the \<open>for\<close> loop over \<open>funcs\<close>. An exception of a
  routine leaves the loop.
\<close>

fun Or :: "'w check list \<Rightarrow> 'w check" where
  "Or [] r w = (Inr None, w)"
| "Or (func # funcs) r w =
     (case func r w of
        (Inl e, w') \<Rightarrow> (Inl e, w')
      | (Inr msg, w') \<Rightarrow> if truthy msg then (Inr msg, w') else Or funcs r w')"

text \<open>A routine without an effect, as a routine on any world.\<close>

definition pure_check :: "(result \<Rightarrow> pyerr + string option) \<Rightarrow> 'w check" where
  "pure_check f r w = (f r, w)"

subsection \<open>\<open>value_below\<close>, \<open>value_above\<close>\<close>

definition value_below ::
  "float_ops \<Rightarrow> limit \<Rightarrow> spec \<Rightarrow> string option \<Rightarrow> result \<Rightarrow> pyerr + string option" where
  "value_below fl lmt spc name r =
     (let name' = (case name of None \<Rightarrow> str_spec spc | Some n \<Rightarrow> n) in
      case glom r spc of
        Inl e \<Rightarrow> Inl e
      | Inr v \<Rightarrow>
          (case py_float fl lmt of
             Inl e \<Rightarrow> Inl e
           | Inr x \<Rightarrow>
               (case py_lt v x of
                  Inl e \<Rightarrow> Inl e
                | Inr b \<Rightarrow>
                    if b then Inr (Some (name' @ '' < '' @ str_limit lmt))
                    else Inr None)))"

definition value_above ::
  "float_ops \<Rightarrow> limit \<Rightarrow> spec \<Rightarrow> string option \<Rightarrow> result \<Rightarrow> pyerr + string option" where
  "value_above fl lmt spc name r =
     (let name' = (case name of None \<Rightarrow> str_spec spc | Some n \<Rightarrow> n) in
      case glom r spc of
        Inl e \<Rightarrow> Inl e
      | Inr v \<Rightarrow>
          (case py_float fl lmt of
             Inl e \<Rightarrow> Inl e
           | Inr x \<Rightarrow>
               (case py_gt v x of
                  Inl e \<Rightarrow> Inl e
                | Inr b \<Rightarrow>
                    if b then Inr (Some (name' @ '' > '' @ str_limit lmt))
                    else Inr None)))"

subsection \<open>\<open>delta_below\<close>\<close>

text \<open>The classes of \<open>except (AttributeError, KeyError, IndexError, glom.GlomError)\<close>.\<close>

fun caught :: "pyerr \<Rightarrow> bool" where
  "caught (Exc c m) = (c \<in> {AttributeError, KeyError, IndexError, GlomError, PathAccessError})"

text \<open>
  One \<open>try\<close> block: the value and the new \<open>delayed_exc\<close>. A caught exception sets
  the value to \<open>None\<close> and is kept; any other exception leaves the routine.
\<close>

definition try_glom :: "result \<Rightarrow> spec \<Rightarrow> pyerr option \<Rightarrow> pyerr + pyval \<times> pyerr option" where
  "try_glom r spc delayed_exc =
     (case glom r spc of
        Inr v \<Rightarrow> Inr (v, delayed_exc)
      | Inl exc \<Rightarrow> if caught exc then Inr (PNone, Some exc) else Inl exc)"

text \<open>The default name, \<open>"\<Delta>(%s,%s)" % (spec1, spec0)\<close>; the Greek letter in UTF-8.\<close>

definition delta_name :: "spec \<Rightarrow> spec \<Rightarrow> string" where
  "delta_name spec1 spec0 =
     [CHR 0xCE, CHR 0x94] @ ''('' @ str_spec spec1 @ '','' @ str_spec spec0 @ '')''"

definition delta_below ::
  "float_ops \<Rightarrow> limit \<Rightarrow> spec \<Rightarrow> spec \<Rightarrow> bool \<Rightarrow> string option \<Rightarrow> result \<Rightarrow> pyerr + string option" where
  "delta_below fl lmt spec1 spec0 absolute_value name r =
     (let name' = (case name of None \<Rightarrow> delta_name spec1 spec0 | Some n \<Rightarrow> n) in
      case try_glom r spec1 None of
        Inl e \<Rightarrow> Inl e
      | Inr (v1, exc1) \<Rightarrow>
      (case try_glom r spec0 exc1 of
        Inl e \<Rightarrow> Inl e
      | Inr (v0, delayed_exc) \<Rightarrow>
      if is_None v1 \<noteq> is_None v0 then Inr None
      else
      (case delayed_exc of
        Some exc \<Rightarrow> Inl exc
      | None \<Rightarrow>
      (case py_sub fl v1 v0 of
        Inl e \<Rightarrow> Inl e
      | Inr d \<Rightarrow>
      (case (if absolute_value then py_abs d else Inr d) of
        Inl e \<Rightarrow> Inl e
      | Inr delta \<Rightarrow>
      (case py_float fl lmt of
        Inl e \<Rightarrow> Inl e
      | Inr x \<Rightarrow>
      (case py_lt delta x of
        Inl e \<Rightarrow> Inl e
      | Inr b \<Rightarrow>
          if b then Inr (Some (name' @ '' < '' @ str_limit lmt))
          else Inr None)))))))"


definition monotonic_fidelity :: "float_ops \<Rightarrow> result \<Rightarrow> pyerr + string option" where
  "monotonic_fidelity fl =
     delta_below fl (LimitInt 0) (InfoValsT (- 1)) (InfoValsT (- 2)) False
       (Some ''Loss of monotonic convergence; fidelity increase'')"


definition check_monotonic_fidelity :: "float_ops \<Rightarrow> result \<Rightarrow> pyerr + string option" where
  "check_monotonic_fidelity fl r = monotonic_fidelity fl r"

subsection \<open>\<open>dump_result\<close>\<close>

text \<open>
  \<open>format(i, fs)\<close> for an \<open>int\<close>, on the format specs \<open>[0][width][d]\<close>: the decimal
  text, padded to the width with blanks on the left, or with zeros after the sign
  under the \<open>0\<close> flag. Any other format spec is outside the model.
\<close>

definition format_int :: "string \<Rightarrow> int \<Rightarrow> pyerr + string" where
  "format_int fs i =
     (let zero = (fs \<noteq> [] \<and> hd fs = CHR ''0'');
          s1 = (if zero then tl fs else fs);
          width = nat (digits_val (takeWhile is_digit s1));
          ty = dropWhile is_digit s1;
          sign = (if i < 0 then ''-'' else []);
          body = str_nat (nat \<bar>i\<bar>);
          pad = width - (length sign + length body)
      in if ty = [] \<or> ty = ''d''
         then Inr (if zero then sign @ replicate pad (CHR ''0'') @ body
                   else replicate pad (CHR '' '') @ sign @ body)
         else Inl (Exc Unmodelled (''format spec '' @ fs)))"

text \<open>
  One replacement field \<open>{name:fs}\<close> under \<open>format(iter=i)\<close>. The only keyword is
  \<open>iter\<close>: another name is a \<open>KeyError\<close>, an empty or numeric name asks for a
  positional argument and is an \<open>IndexError\<close>. Attribute and index lookups and
  conversions (\<open>.\<close>, \<open>[\<close>, \<open>!\<close>) are outside the model.
\<close>

definition format_field :: "string \<Rightarrow> int \<Rightarrow> pyerr + string" where
  "format_field f i =
     (let name = takeWhile (\<lambda>c. c \<noteq> CHR '':'') f;
          fs = drop 1 (dropWhile (\<lambda>c. c \<noteq> CHR '':'') f)
      in if name = ''iter'' then format_int fs i
         else if list_ex (\<lambda>c. c = CHR ''.'' \<or> c = CHR ''['' \<or> c = CHR ''!'') name
         then Inl (Exc Unmodelled (''field '' @ f))
         else if list_all is_digit name
         then Inl (Exc IndexError ''Replacement index out of range for positional args tuple'')
         else Inl (Exc KeyError ([CHR 0x27] @ name @ [CHR 0x27])))"

definition prepend :: "string \<Rightarrow> pyerr + string \<Rightarrow> pyerr + string" where
  "prepend s x = (case x of Inl e \<Rightarrow> Inl e | Inr t \<Rightarrow> Inr (s @ t))"

text \<open>
  The scan of the template, left to right; the second argument is the text of the
  replacement field being read, \<open>None\<close> outside a field. \<open>{{\<close> and \<open>}}\<close> are the
  literal braces. A brace inside a field (a nested field) is outside the model.
\<close>

fun format_scan :: "string \<Rightarrow> string option \<Rightarrow> int \<Rightarrow> pyerr + string" where
  "format_scan [] None i = Inr []"
| "format_scan [] (Some f) i = Inl (Exc ValueError ''expected } before end of string'')"
| "format_scan (c # cs) (Some f) i =
     (if c = CHR ''}'' then
        (case format_field f i of
           Inl e \<Rightarrow> Inl e
         | Inr s \<Rightarrow> prepend s (format_scan cs None i))
      else if c = CHR ''{'' then Inl (Exc Unmodelled ''nested replacement field'')
      else format_scan cs (Some (f @ [c])) i)"
| "format_scan (c # cs) None i =
     (if c = CHR ''{'' then
        (case cs of
           d # ds \<Rightarrow> if d = CHR ''{'' then prepend ''{'' (format_scan ds None i)
                     else format_scan cs (Some []) i
         | [] \<Rightarrow> format_scan cs (Some []) i)
      else if c = CHR ''}'' then
        (case cs of
           d # ds \<Rightarrow> if d = CHR ''}'' then prepend ''}'' (format_scan ds None i)
                     else Inl (Exc ValueError ''Single } encountered in format string'')
         | [] \<Rightarrow> Inl (Exc ValueError ''Single } encountered in format string''))
      else prepend [c] (format_scan cs None i))"

text \<open>\<open>filename.format(iter=iteration)\<close>.\<close>

definition py_format :: "string \<Rightarrow> int \<Rightarrow> pyerr + string" where
  "py_format filename iteration = format_scan filename None iteration"

text \<open>The world of \<open>dump_result\<close>: the paths \<open>result.dump\<close> was called with, in order.\<close>

type_synonym dumplog = "string list"

text \<open>
  The closure \<open>_dump_result\<close>. \<open>result.iters[-1]\<close> is plain list indexing;
  \<open>except IOError\<close> turns that class into the message, any other exception of
  \<open>dump\<close> leaves the routine.
\<close>

definition dump_result_inner :: "string \<Rightarrow> int \<Rightarrow> dumplog check" where
  "dump_result_inner filename every r w =
     (case py_index (iters r) (- 1) of
        Inl e \<Rightarrow> (Inl e, w)
      | Inr iteration \<Rightarrow>
          if iteration mod every = 0 then
            (case py_format filename iteration of
               Inl e \<Rightarrow> (Inl e, w)
             | Inr outfile \<Rightarrow>
                 (case dump r outfile of
                    None \<Rightarrow> (Inr None, w @ [outfile])
                  | Some exc_info \<Rightarrow>
                      if exc_cls exc_info = IOError
                      then (Inr (Some (''Could not store '' @ outfile @ '': '' @ exc_str exc_info)),
                            w @ [outfile])
                      else (Inl exc_info, w @ [outfile])))
          else (Inr None, w))"

text \<open>
  \<open>dump_result\<close>: \<open>every\<close> is an \<open>int\<close> (on which \<open>int(every)\<close> is the identity); the
  check of \<open>every\<close> is made when the closure is built.
\<close>

definition dump_result :: "string \<Rightarrow> int \<Rightarrow> pyerr + dumplog check" where
  "dump_result filename every =
     (if every \<le> 0 then Inl (Exc ValueError ''every must be > 0'')
      else Inr (dump_result_inner filename every))"

subsection \<open>The arithmetic of the doubles\<close>

text \<open>
  The operations that round, as IEEE 754 binary64 and CPython define them, for the
  examples. \<open>round_double x\<close> is the double nearest to the real \<open>x\<close>, ties to the even
  significand: the unit in the last place is \<open>2 ^ (e - 52)\<close> for
  \<open>2 ^ e \<le> \<bar>x\<bar> < 2 ^ (e + 1)\<close>, and \<open>2 ^ - 1074\<close> below \<open>2 ^ - 1022\<close>; a result of
  \<open>2 ^ 1024\<close> or more is an infinity.
\<close>

definition pow2 :: "int \<Rightarrow> real" where
  "pow2 e = (if 0 \<le> e then 2 ^ nat e else 1 / 2 ^ nat (- e))"

definition round_half_even :: "real \<Rightarrow> int" where
  "round_half_even y =
     (let f = \<lfloor>y\<rfloor>; d = y - of_int f in
      if d < 1 / 2 then f else if 1 / 2 < d then f + 1 else if even f then f else f + 1)"

text \<open>
  The exponent \<open>e\<close> with \<open>2 ^ e \<le> x < 2 ^ (e + 1)\<close>, for \<open>x\<close> between \<open>2 ^ - n\<close> and
  \<open>2 ^ n\<close>; beyond, \<open>- n\<close> and \<open>n\<close>.
\<close>

fun ilog2 :: "nat \<Rightarrow> real \<Rightarrow> int" where
  "ilog2 n x =
     (if n = 0 then 0
      else if 2 \<le> x then ilog2 (n - 1) (x / 2) + 1
      else if x < 1 then ilog2 (n - 1) (2 * x) - 1
      else 0)"

declare ilog2.simps [simp del]

definition round_double :: "real \<Rightarrow> pyfloat" where
  "round_double x =
     (if x = 0 then Finite 0
      else
        (let a = \<bar>x\<bar>;
             e = max (ilog2 1100 a) (- 1022) - 52;
             m = of_int (round_half_even (a / pow2 e)) * pow2 e
         in if 2 ^ 1024 \<le> m then (if x < 0 then NegInf else PosInf)
            else Finite (if x < 0 then - m else m)))"

text \<open>An optional sign: \<open>True\<close> for \<open>-\<close>, and the rest of the text.\<close>

fun take_sign :: "string \<Rightarrow> bool \<times> string" where
  "take_sign [] = (False, [])"
| "take_sign (c # cs) =
     (if c = CHR ''-'' then (True, cs)
      else if c = CHR ''+'' then (False, cs)
      else (False, c # cs))"

text \<open>
  A run of digits, single underscores allowed between two digits: the digits and
  the rest of the text.
\<close>

fun scan_more :: "string \<Rightarrow> string \<times> string" where
  "scan_more [] = ([], [])"
| "scan_more (c # cs) =
     (if is_digit c then (case scan_more cs of (ds, rest) \<Rightarrow> (c # ds, rest))
      else if c = CHR ''_'' then
        (case cs of
           [] \<Rightarrow> ([], c # cs)
         | d # cs' \<Rightarrow>
             if is_digit d then (case scan_more cs' of (ds, rest) \<Rightarrow> (d # ds, rest))
             else ([], c # cs))
      else ([], c # cs))"

definition digitpart :: "string \<Rightarrow> string \<times> string" where
  "digitpart s = (if s \<noteq> [] \<and> is_digit (hd s) then scan_more s else ([], s))"

definition is_space :: "char \<Rightarrow> bool" where
  "is_space c = (let n = (of_char c :: nat) in (9 \<le> n \<and> n \<le> 13) \<or> n = 32)"

definition strip :: "string \<Rightarrow> string" where
  "strip s = rev (dropWhile is_space (rev (dropWhile is_space s)))"

text \<open>\<open>s\<close> is the word \<open>lo\<close> in any mix of cases (\<open>up\<close> is \<open>lo\<close> in capitals).\<close>

fun ci_match :: "string \<Rightarrow> string \<Rightarrow> string \<Rightarrow> bool" where
  "ci_match [] [] [] = True"
| "ci_match (c # cs) (l # ls) (u # us) = ((c = l \<or> c = u) \<and> ci_match cs ls us)"
| "ci_match s lo up = False"

text \<open>
  \<open>float(s)\<close> for a string: blanks around, a sign, then \<open>inf\<close>, \<open>infinity\<close> or \<open>nan\<close>,
  or a decimal literal (digits, optional fraction, optional exponent), whose exact
  value is rounded once. Any other text is a \<open>ValueError\<close>. Strings are bytes here:
  blanks and digits outside ASCII are not modelled.
\<close>

definition float_of_string :: "string \<Rightarrow> pyerr + pyfloat" where
  "float_of_string s =
     (let err = Inl (Exc ValueError
                  (''could not convert string to float: '' @ [CHR 0x27] @ s @ [CHR 0x27]));
          (neg, s1) = take_sign (strip s);
          (ip, s2) = digitpart s1;
          dot = (s2 \<noteq> [] \<and> hd s2 = CHR ''.'');
          (fp, s3) = (if dot then digitpart (tl s2) else ([], s2));
          m = real_of_int (digits_val ip) + real_of_int (digits_val fp) / 10 ^ length fp;
          sm = (if neg then - m else m)
      in if ci_match s1 ''inf'' ''INF'' \<or> ci_match s1 ''infinity'' ''INFINITY''
         then Inr (if neg then NegInf else PosInf)
         else if ci_match s1 ''nan'' ''NAN'' then Inr NaN
         else if ip = [] \<and> fp = [] then err
         else if s3 = [] then Inr (round_double sm)
         else if hd s3 = CHR ''e'' \<or> hd s3 = CHR ''E'' then
           (case take_sign (tl s3) of
              (eneg, s4) \<Rightarrow>
                (case digitpart s4 of
                   (ed, s5) \<Rightarrow>
                     if ed \<noteq> [] \<and> s5 = []
                     then Inr (round_double
                            (if eneg then sm / 10 ^ nat (digits_val ed)
                             else sm * 10 ^ nat (digits_val ed)))
                     else err))
         else err)"

text \<open>\<open>float(i)\<close>: the nearest double, \<open>OverflowError\<close> when that is no finite one.\<close>

definition float_of_integer :: "int \<Rightarrow> pyerr + pyfloat" where
  "float_of_integer i =
     (case round_double (real_of_int i) of
        Finite x \<Rightarrow> Inr (Finite x)
      | PosInf \<Rightarrow> Inl (Exc OverflowError ''int too large to convert to float'')
      | NegInf \<Rightarrow> Inl (Exc OverflowError ''int too large to convert to float'')
      | NaN \<Rightarrow> Inl (Exc OverflowError ''int too large to convert to float''))"

text \<open>\<open>a - b\<close> on floats: the exact difference, rounded once.\<close>

fun ieee_sub :: "pyfloat \<Rightarrow> pyfloat \<Rightarrow> pyfloat" where
  "ieee_sub NaN b = NaN"
| "ieee_sub a NaN = NaN"
| "ieee_sub (Finite a) (Finite b) = round_double (a - b)"
| "ieee_sub (Finite a) PosInf = NegInf"
| "ieee_sub (Finite a) NegInf = PosInf"
| "ieee_sub PosInf PosInf = NaN"
| "ieee_sub PosInf b = PosInf"
| "ieee_sub NegInf NegInf = NaN"
| "ieee_sub NegInf b = NegInf"

definition ieee :: float_ops where
  "ieee = \<lparr>float_of_str = float_of_string, float_of_int = float_of_integer,
            float_sub = ieee_sub\<rparr>"

text \<open>The float a decimal number is read as: \<open>dbl (9 / 10)\<close> is the float \<open>0.9\<close>.\<close>

definition dbl :: "real \<Rightarrow> pyval" where
  "dbl x = PFloat (round_double x)"

subsection \<open>Records and routines for the examples\<close>

text \<open>A \<open>Result\<close> whose \<open>dump\<close> writes every file.\<close>

definition plain_result :: "int list \<Rightarrow> pyval list \<Rightarrow> result" where
  "plain_result its vals = \<lparr>iters = its, info_vals = vals, dump = (\<lambda>path. None)\<rparr>"

text \<open>A \<open>Result\<close> whose \<open>dump\<close> raises the given exception on every path.\<close>

definition failing_result :: "int list \<Rightarrow> pyval list \<Rightarrow> pyerr \<Rightarrow> result" where
  "failing_result its vals exc = \<lparr>iters = its, info_vals = vals, dump = (\<lambda>path. Some exc)\<rparr>"

text \<open>A routine that records its call (its number \<open>k\<close>) and returns \<open>msg\<close>.\<close>

definition stub :: "nat \<Rightarrow> string option \<Rightarrow> nat list check" where
  "stub k msg r w = (Inr msg, w @ [k])"

text \<open>
  What the description of \<open>Or\<close> asks of the routines before the first truthy one:
  run in order, each returns a falsy value and none raises; the result is the world
  they leave.
\<close>

fun all_pass :: "'w check list \<Rightarrow> result \<Rightarrow> 'w \<Rightarrow> 'w option" where
  "all_pass [] r w = Some w"
| "all_pass (func # funcs) r w =
     (case func r w of
        (Inl e, w') \<Rightarrow> None
      | (Inr msg, w') \<Rightarrow> if truthy msg then None else all_pass funcs r w')"

text \<open>A template text without braces.\<close>

definition brace_free :: "string \<Rightarrow> bool" where
  "brace_free s = list_all (\<lambda>c. c \<noteq> CHR ''{'' \<and> c \<noteq> CHR ''}'') s"

section \<open>Properties\<close>

subsection \<open>Extraction on \<open>info_vals\<close>\<close>


lemma glom_last_two:
  "info_vals r = vs @ [a, b] \<Longrightarrow>
     glom r (InfoValsT (- 2)) = Inr a \<and> glom r (InfoValsT (- 1)) = Inr b"
  by (simp add: py_index_def nth_append Let_def nat_add_distrib)



lemma caught_path_access_error: "caught (path_access_error i)"
  by (simp add: path_access_error_def)

subsection \<open>Numbers\<close>

lemma flt_irrefl: "\<not> flt a a"
  by (cases a) simp_all

lemma is_num_not_None: "is_num v \<Longrightarrow> \<not> is_None v"
  by (cases v) simp_all



subsection \<open>Evaluating the arithmetic of the doubles\<close>

lemma pow2_powr: "pow2 k = 2 powr (real_of_int k)"
  by (simp add: pow2_def powr_real_of_int inverse_eq_divide)

lemma pow2_pos: "0 < pow2 k"
  by (simp add: pow2_powr)

lemma pow2_Suc: "pow2 (k + 1) = 2 * pow2 k"
  by (simp add: pow2_powr powr_add)

lemma pow2_pred: "pow2 (k - 1) = pow2 k / 2"
  using pow2_Suc [of "k - 1"] by simp

lemma pow2_mono: "j \<le> k \<Longrightarrow> pow2 j \<le> pow2 k"
  by (simp add: pow2_powr)

lemma pow2_0: "pow2 0 = 1"
  by (simp add: pow2_def)

lemma ilog2_eq:
  "pow2 k \<le> x \<Longrightarrow> x < pow2 (k + 1) \<Longrightarrow> \<bar>k\<bar> < int n \<Longrightarrow> ilog2 n x = k"
proof (induction n arbitrary: x k)
  case 0
  then show ?case by simp
next
  case (Suc n)
  show ?case
  proof (cases "2 \<le> x")
    case True
    have "1 \<le> k"
    proof (rule ccontr)
      assume "\<not> 1 \<le> k"
      then have "k + 1 \<le> 1" by simp
      from pow2_mono [OF this] have "pow2 (k + 1) \<le> 2" by (simp add: pow2_def)
      with Suc.prems(2) True show False by simp
    qed
    have "ilog2 n (x / 2) = k - 1"
    proof (rule Suc.IH)
      show "pow2 (k - 1) \<le> x / 2" using Suc.prems(1) by (simp add: pow2_pred)
      show "x / 2 < pow2 (k - 1 + 1)" using Suc.prems(2) by (simp add: pow2_Suc)
      show "\<bar>k - 1\<bar> < int n" using Suc.prems(3) \<open>1 \<le> k\<close> by simp
    qed
    with True show ?thesis by (simp add: ilog2.simps [of "Suc n"])
  next
    case False
    show ?thesis
    proof (cases "x < 1")
      case True
      have "k \<le> - 1"
      proof (rule ccontr)
        assume "\<not> k \<le> - 1"
        then have "0 \<le> k" by simp
        from pow2_mono [OF this] have "1 \<le> pow2 k" by (simp add: pow2_0)
        with Suc.prems(1) True show False by simp
      qed
      have "ilog2 n (2 * x) = k + 1"
      proof (rule Suc.IH)
        show "pow2 (k + 1) \<le> 2 * x" using Suc.prems(1) by (simp add: pow2_Suc)
        show "2 * x < pow2 (k + 1 + 1)" using Suc.prems(2) pow2_Suc [of "k + 1"] by simp
        show "\<bar>k + 1\<bar> < int n" using Suc.prems(3) \<open>k \<le> - 1\<close> by simp
      qed
      with True \<open>\<not> 2 \<le> x\<close> show ?thesis by (simp add: ilog2.simps [of "Suc n"])
    next
      case False
      have "k = 0"
      proof (rule ccontr)
        assume "k \<noteq> 0"
        then consider "1 \<le> k" | "k + 1 \<le> 0" by linarith
        then show False
        proof cases
          case 1
          from pow2_mono [OF this] have "2 \<le> pow2 k" by (simp add: pow2_def)
          with Suc.prems(1) \<open>\<not> 2 \<le> x\<close> show False by simp
        next
          case 2
          from pow2_mono [OF this] have "pow2 (k + 1) \<le> 1" by (simp add: pow2_0)
          with Suc.prems(2) False show False by simp
        qed
      qed
      with False \<open>\<not> 2 \<le> x\<close> show ?thesis by (simp add: ilog2.simps [of "Suc n"])
    qed
  qed
qed

text \<open>
  The double nearest to \<open>x\<close>, given the exponent \<open>k\<close> of \<open>x\<close>: what is left is
  arithmetic on numerals.
\<close>

lemma round_double_eval:
  assumes "x \<noteq> 0" and "pow2 k \<le> \<bar>x\<bar>" and "\<bar>x\<bar> < pow2 (k + 1)"
    and "- 1022 \<le> k" and "k < 1024"
  shows "round_double x =
     (let m = of_int (round_half_even (\<bar>x\<bar> / pow2 (k - 52))) * pow2 (k - 52)
      in if 2 ^ 1024 \<le> m then (if x < 0 then NegInf else PosInf)
         else Finite (if x < 0 then - m else m))"
proof -
  have "ilog2 1100 \<bar>x\<bar> = k"
    using assms by (intro ilog2_eq) auto
  with assms(4) have e: "max (ilog2 1100 \<bar>x\<bar>) (- 1022) - 52 = k - 52"
    by simp
  show ?thesis
    unfolding round_double_def Let_def e by (simp only: assms(1) if_False)
qed


text \<open>The doubles of the examples, and their differences as floats.\<close>

lemma rd_1em4: "round_double (1 / 10000) = Finite (7378697629483821 / 73786976294838206464)"
  by (subst round_double_eval [where k = "- 14"])
     (simp_all add: pow2_def round_half_even_def Let_def)

lemma rd_9em5: "round_double (9 / 100000) = Finite (6640827866535439 / 73786976294838206464)"
  by (subst round_double_eval [where k = "- 14"])
     (simp_all add: pow2_def round_half_even_def Let_def)

lemma rd_03: "round_double (3 / 10) = Finite (5404319552844595 / 18014398509481984)"
  by (subst round_double_eval [where k = "- 2"])
     (simp_all add: pow2_def round_half_even_def Let_def)








lemma rd_1e23: "round_double (100000000000000000000000) = Finite 99999999999999991611392"
  by (subst round_double_eval [where k = "76"])
     (simp_all add: pow2_def round_half_even_def Let_def)








text \<open>\<open>float()\<close> on the limits of the examples.\<close>

lemmas parse_defs = float_of_string_def strip_def is_space_def digitpart_def is_digit_def
  digits_val_def

lemma float_1em4: "py_float ieee (LimitStr ''1e-4'') =
    Inr (Finite (7378697629483821 / 73786976294838206464))"
  by (simp add: ieee_def parse_defs rd_1em4)

lemma float_03: "py_float ieee (LimitStr ''0.3'') =
    Inr (Finite (5404319552844595 / 18014398509481984))"
  by (simp add: ieee_def parse_defs rd_03)

lemma float_1e23: "py_float ieee (LimitStr ''1e23'') = Inr (Finite 99999999999999991611392)"
  by (simp add: ieee_def parse_defs rd_1e23)

lemma float_abc: "py_float ieee (LimitStr ''abc'') =
    Inl (Exc ValueError (''could not convert string to float: '' @ [CHR 0x27] @ ''abc'' @ [CHR 0x27]))"
  by (simp add: ieee_def parse_defs)


subsection \<open>\<open>delta_below\<close>: missing data\<close>

text \<open>
  Claim C1, as stated, fails. On a record whose only info value is \<open>None\<close>, with the
  default specs, exactly one extraction fails (\<open>T[-2]\<close>; \<open>T[-1]\<close> yields \<open>None\<close>), and
  the routine raises the captured \<open>PathAccessError\<close> instead of returning \<open>None\<close>: the
  test \<open>v1 is None\<close> cannot tell the extracted \<open>None\<close> from a failure.
\<close>

theorem delta_below_one_sided_counterexample:
  "glom (plain_result [1] [PNone]) (InfoValsT (- 1)) = Inr PNone \<and>
   glom (plain_result [1] [PNone]) (InfoValsT (- 2)) = Inl (path_access_error (- 2)) \<and>
   caught (path_access_error (- 2)) \<and>
   delta_below ieee (LimitStr ''1e-4'') (InfoValsT (- 1)) (InfoValsT (- 2)) True None
     (plain_result [1] [PNone]) = Inl (path_access_error (- 2))"
  by (simp add: delta_below_def try_glom_def plain_result_def py_index_def path_access_error_def)

text \<open>
  Claim C1, amended: for every record and every pair of specs, if exactly one of the
  two extractions fails with an exception of the classes the routine catches
  (\<open>AttributeError\<close>, \<open>KeyError\<close>, \<open>IndexError\<close>, \<open>GlomError\<close>) and the other yields a
  value that is not \<open>None\<close>, the routine returns \<open>None\<close> (continue), whatever the
  limit, the flag and the name.
\<close>

theorem delta_below_one_failure:
  assumes "(glom r spec1 = Inl e \<and> glom r spec0 = Inr v) \<or>
           (glom r spec1 = Inr v \<and> glom r spec0 = Inl e)"
    and "caught e" and "\<not> is_None v"
  shows "delta_below fl lmt spec1 spec0 absolute_value name r = Inr None"
  using assms by (auto simp: delta_below_def try_glom_def)

text \<open>The record with the one info value \<open>9e-1\<close>, under the default specs.\<close>

theorem delta_below_one_failure_witness:
  "glom (plain_result [1] [dbl (9 / 10)]) (InfoValsT (- 1)) = Inr (dbl (9 / 10)) \<and>
   glom (plain_result [1] [dbl (9 / 10)]) (InfoValsT (- 2)) = Inl (path_access_error (- 2)) \<and>
   caught (path_access_error (- 2)) \<and> \<not> is_None (dbl (9 / 10)) \<and>
   delta_below ieee (LimitStr ''1e-4'') (InfoValsT (- 1)) (InfoValsT (- 2)) True None
     (plain_result [1] [dbl (9 / 10)]) = Inr None"
proof -
  let ?r = "plain_result [1] [dbl (9 / 10)]"
  have g1: "glom ?r (InfoValsT (- 1)) = Inr (dbl (9 / 10))"
    by (simp add: plain_result_def py_index_def)
  have g0: "glom ?r (InfoValsT (- 2)) = Inl (path_access_error (- 2))"
    by (simp add: plain_result_def py_index_def)
  have n: "\<not> is_None (dbl (9 / 10))" by (simp add: dbl_def)
  from delta_below_one_failure [of ?r "InfoValsT (- 1)" "path_access_error (- 2)" "InfoValsT (- 2)"
      "dbl (9 / 10)" ieee "LimitStr ''1e-4''" True None] g1 g0 caught_path_access_error [of "- 2"] n
  show ?thesis by simp
qed

text \<open>
  Claim C2: on every record on which both extractions fail, the routine raises an
  extraction failure it met and does not return \<open>None\<close>. When the first failure is
  of a caught class the second extraction is attempted and it is its failure, the
  one captured last in \<open>delayed_exc\<close>, that is re-raised; a first failure of another
  class leaves the routine at once.
\<close>

theorem delta_below_both_fail:
  assumes "glom r spec1 = Inl e1" and "glom r spec0 = Inl e0"
  shows "delta_below fl lmt spec1 spec0 absolute_value name r = Inl (if caught e1 then e0 else e1)"
  using assms by (auto simp: delta_below_def try_glom_def)

text \<open>The record without info values, under the default specs.\<close>

theorem delta_below_both_fail_witness:
  "glom (plain_result [] []) (InfoValsT (- 1)) = Inl (path_access_error (- 1)) \<and>
   glom (plain_result [] []) (InfoValsT (- 2)) = Inl (path_access_error (- 2)) \<and>
   delta_below ieee (LimitStr ''1e-4'') (InfoValsT (- 1)) (InfoValsT (- 2)) True None
     (plain_result [] []) = Inl (path_access_error (- 2))"
proof -
  let ?r = "plain_result [] []"
  have g1: "glom ?r (InfoValsT (- 1)) = Inl (path_access_error (- 1))"
    by (simp add: plain_result_def py_index_def)
  have g0: "glom ?r (InfoValsT (- 2)) = Inl (path_access_error (- 2))"
    by (simp add: plain_result_def py_index_def)
  from delta_below_both_fail [OF g1 g0, of ieee "LimitStr ''1e-4''" True None] g1 g0
    caught_path_access_error [of "- 1"]
  show ?thesis by simp
qed

text \<open>
  Claim C10: when one extraction yields \<open>None\<close> without raising and the other yields
  a number, the routine returns \<open>None\<close> (continue). The limit is arbitrary, also one
  \<open>float()\<close> rejects: the subtraction and the comparison are not reached.
\<close>

theorem delta_below_None_value:
  assumes "(glom r spec1 = Inr PNone \<and> glom r spec0 = Inr v \<and> is_num v) \<or>
           (glom r spec1 = Inr v \<and> is_num v \<and> glom r spec0 = Inr PNone)"
  shows "delta_below fl lmt spec1 spec0 absolute_value name r = Inr None"
  using assms by (auto simp: delta_below_def try_glom_def dest: is_num_not_None)

text \<open>Info values \<open>[None, 0.5]\<close>, default specs, and a limit that is no number.\<close>

theorem delta_below_None_value_witness:
  "glom (plain_result [1, 2] [PNone, dbl (1 / 2)]) (InfoValsT (- 1)) = Inr (dbl (1 / 2)) \<and>
   glom (plain_result [1, 2] [PNone, dbl (1 / 2)]) (InfoValsT (- 2)) = Inr PNone \<and>
   is_num (dbl (1 / 2)) \<and>
   py_float ieee (LimitStr ''abc'') =
     Inl (Exc ValueError
       (''could not convert string to float: '' @ [CHR 0x27] @ ''abc'' @ [CHR 0x27])) \<and>
   delta_below ieee (LimitStr ''abc'') (InfoValsT (- 1)) (InfoValsT (- 2)) True None
     (plain_result [1, 2] [PNone, dbl (1 / 2)]) = Inr None"
proof -
  let ?r = "plain_result [1, 2] [PNone, dbl (1 / 2)]"
  have g: "glom ?r (InfoValsT (- 2)) = Inr PNone \<and> glom ?r (InfoValsT (- 1)) = Inr (dbl (1 / 2))"
    by (rule glom_last_two [of ?r "[]"]) (simp add: plain_result_def)
  have n: "is_num (dbl (1 / 2))" by (simp add: dbl_def)
  from delta_below_None_value [of ?r "InfoValsT (- 1)" "InfoValsT (- 2)" "dbl (1 / 2)"
      ieee "LimitStr ''abc''" True None] g n float_abc
  show ?thesis by simp
qed

subsection \<open>\<open>value_below\<close> and \<open>delta_below\<close> on numbers\<close>

text \<open>
  Claim C3: on every record on which the extraction yields a number \<open>v\<close>, with a
  limit \<open>float()\<close> turns into the float \<open>x\<close>, the routine of \<open>value_below\<close> returns
  the message \<open>"{name} < {limit}"\<close> if \<open>v < x\<close> and \<open>None\<close> otherwise; so it returns
  \<open>None\<close> when \<open>v\<close> is the float \<open>x\<close> itself (or the \<open>int\<close> equal to it); for a limit
  given as text the message ends with that text as it was given. This holds
  whatever \<open>float()\<close> computes: \<open>v < x\<close> compares the values exactly.
\<close>

theorem value_below_numeric:
  assumes "glom r spc = Inr v" and "is_num v" and "py_float fl lmt = Inr x"
  shows "value_below fl lmt spc name r =
           Inr (if num_lt v x
                then Some ((case name of None \<Rightarrow> str_spec spc | Some n \<Rightarrow> n)
                           @ '' < '' @ str_limit lmt)
                else None) \<and>
         (v = PFloat x \<or> (v = PInt i \<and> x = Finite (real_of_int i))
            \<longrightarrow> value_below fl lmt spc name r = Inr None) \<and>
         (lmt = LimitStr s \<longrightarrow>
            value_below fl lmt spc (Some n) r =
              Inr (if num_lt v x then Some (n @ '' < '' @ s) else None))"
  using assms by (auto simp: value_below_def py_lt_def flt_irrefl)

text \<open>
  Under the arithmetic of the doubles: limit \<open>'1e-4'\<close> with the last info value
  \<open>1e-4\<close>, then \<open>9e-5\<close> (the example of the docstring); limit \<open>'0.3'\<close> with the info
  value \<open>0.3\<close>; and limit \<open>'1e23'\<close>, which is the double \<open>99999999999999991611392\<close>,
  with the \<open>int\<close> \<open>10 ^ 23 - 1\<close>, which is greater.
\<close>

theorem value_below_numeric_witness:
  "value_below ieee (LimitStr ''1e-4'') (InfoValsT (- 1)) (Some ''J_T'')
     (plain_result [1] [dbl (1 / 10000)]) = Inr None \<and>
   value_below ieee (LimitStr ''1e-4'') (InfoValsT (- 1)) (Some ''J_T'')
     (plain_result [1, 2] [dbl (1 / 10000), dbl (9 / 100000)]) = Inr (Some ''J_T < 1e-4'') \<and>
   value_below ieee (LimitStr ''0.3'') (InfoValsT (- 1)) (Some ''J_T'')
     (plain_result [1] [dbl (3 / 10)]) = Inr None \<and>
   value_below ieee (LimitStr ''1e23'') (InfoValsT (- 1)) (Some ''J_T'')
     (plain_result [1] [PInt 99999999999999999999999]) = Inr None"
proof -
  let ?T = "InfoValsT (- 1)"
  let ?r1 = "plain_result [1] [dbl (1 / 10000)]"
  let ?r2 = "plain_result [1, 2] [dbl (1 / 10000), dbl (9 / 100000)]"
  let ?r3 = "plain_result [1] [dbl (3 / 10)]"
  let ?r4 = "plain_result [1] [PInt 99999999999999999999999]"
  have g1: "glom ?r1 ?T = Inr (dbl (1 / 10000))"
    by (simp add: plain_result_def py_index_def)
  have g2: "glom ?r2 ?T = Inr (dbl (9 / 100000))"
    by (simp add: plain_result_def py_index_def)
  have g3: "glom ?r3 ?T = Inr (dbl (3 / 10))"
    by (simp add: plain_result_def py_index_def)
  have g4: "glom ?r4 ?T = Inr (PInt 99999999999999999999999)"
    by (simp add: plain_result_def py_index_def)
  have n: "is_num (dbl y)" for y by (simp add: dbl_def)
  from value_below_numeric [OF g1 n float_1em4, of "Some ''J_T''" 0 "''1e-4''" "''J_T''"]
  have 1: "value_below ieee (LimitStr ''1e-4'') ?T (Some ''J_T'') ?r1 = Inr None"
    by (simp add: dbl_def rd_1em4)
  from value_below_numeric [OF g2 n float_1em4, of "Some ''J_T''" 0 "''1e-4''" "''J_T''"]
  have 2: "value_below ieee (LimitStr ''1e-4'') ?T (Some ''J_T'') ?r2 = Inr (Some ''J_T < 1e-4'')"
    by (simp add: dbl_def rd_9em5)
  from value_below_numeric [OF g3 n float_03, of "Some ''J_T''" 0 "''0.3''" "''J_T''"]
  have 3: "value_below ieee (LimitStr ''0.3'') ?T (Some ''J_T'') ?r3 = Inr None"
    by (simp add: dbl_def rd_03)
  have n4: "is_num (PInt 99999999999999999999999)" by simp
  from value_below_numeric [OF g4 n4 float_1e23, of "Some ''J_T''" 0 "''1e23''" "''J_T''"]
  have 4: "value_below ieee (LimitStr ''1e23'') ?T (Some ''J_T'') ?r4 = Inr None"
    by simp
  from 1 2 3 4 show ?thesis by simp
qed




subsection \<open>\<open>check_monotonic_error\<close>\<close>




subsection \<open>\<open>Or\<close>\<close>

lemma Or_append_pass:
  "all_pass pre r w = Some w1 \<Longrightarrow> Or (pre @ fs) r w = Or fs r w1"
  by (induction pre arbitrary: w) (auto split: prod.splits sum.splits if_splits)

text \<open>
  Claim C6: for every list of routines and every record, \<open>Or\<close> calls the routines in
  order and returns the result of the first whose result is truthy, in the world
  that routine leaves: what follows it in the list is not run. When every routine
  returns a falsy result \<open>Or\<close> returns \<open>None\<close>, and so does \<open>Or()\<close>.
\<close>

theorem Or_first_truthy:
  "(all_pass pre r w = Some w1 \<and> p r w1 = (Inr msg, w2) \<and> truthy msg
      \<longrightarrow> Or (pre @ p # post) r w = (Inr msg, w2)) \<and>
   (all_pass fs r w = Some w' \<longrightarrow> Or fs r w = (Inr None, w')) \<and>
   Or [] r w = (Inr None, w)"
proof (intro conjI impI)
  assume "all_pass pre r w = Some w1 \<and> p r w1 = (Inr msg, w2) \<and> truthy msg"
  then show "Or (pre @ p # post) r w = (Inr msg, w2)"
    by (simp add: Or_append_pass)
next
  assume "all_pass fs r w = Some w'"
  from Or_append_pass [OF this, of "[]"] show "Or fs r w = (Inr None, w')"
    by simp
next
  show "Or [] r w = (Inr None, w)" by simp
qed

text \<open>
  Four recording routines: the third is the first truthy one (the second returns the
  empty string), the fourth is never called.
\<close>

theorem Or_first_truthy_witness:
  "Or [stub 1 None, stub 2 (Some []), stub 3 (Some ''stop''), stub 4 (Some ''late'')]
     (plain_result [] []) [] = (Inr (Some ''stop''), [1, 2, 3]) \<and>
   Or [stub 1 None, stub 2 (Some [])] (plain_result [] []) [] = (Inr None, [1, 2]) \<and>
   Or [] (plain_result [] []) ([] :: nat list) = (Inr None, [])"
proof -
  let ?r = "plain_result [] []"
  let ?pre = "[stub 1 None, stub 2 (Some [])]"
  have a: "all_pass ?pre ?r [] = Some [1, 2]"
    by (simp add: stub_def)
  have b: "stub 3 (Some ''stop'') ?r [1, 2] = (Inr (Some ''stop''), [1, 2, 3])"
    by (simp add: stub_def)
  from Or_first_truthy [where pre = ?pre and r = ?r and w = "[]" and ?w1.0 = "[1, 2]"
      and p = "stub 3 (Some ''stop'')" and msg = "Some ''stop''" and ?w2.0 = "[1, 2, 3]"
      and post = "[stub 4 (Some ''late'')]" and fs = ?pre and w' = "[1, 2]"] a b
  show ?thesis by simp
qed

subsection \<open>\<open>dump_result\<close>\<close>

text \<open>
  Claim C7: for every \<open>every \<le> 0\<close> \<open>dump_result\<close> raises \<open>ValueError\<close> when it is
  called, so that no closure is returned; for every positive \<open>every\<close> it returns the
  closure.
\<close>

theorem dump_result_every:
  "(every \<le> 0 \<longrightarrow> dump_result filename every = Inl (Exc ValueError ''every must be > 0'')) \<and>
   (0 < every \<longrightarrow> dump_result filename every = Inr (dump_result_inner filename every))"
  by (simp add: dump_result_def)

theorem dump_result_every_witness:
  "dump_result ''oct_result.dump'' 0 = Inl (Exc ValueError ''every must be > 0'') \<and>
   dump_result ''oct_result.dump'' (- 3) = Inl (Exc ValueError ''every must be > 0'') \<and>
   dump_result ''oct_result.dump'' 10 = Inr (dump_result_inner ''oct_result.dump'' 10)"
  using dump_result_every [of 0 "''oct_result.dump''"]
    dump_result_every [of "- 3" "''oct_result.dump''"]
    dump_result_every [of 10 "''oct_result.dump''"]
  by simp

lemma dump_result_Inr:
  "dump_result filename every = Inr check \<Longrightarrow> 0 < every \<and> check = dump_result_inner filename every"
  by (auto simp: dump_result_def split: if_splits)

lemma iters_last: "iters r \<noteq> [] \<Longrightarrow> py_index (iters r) (- 1) = Inr (last (iters r))"
  by (cases "iters r" rule: rev_cases) (auto simp: py_index_def)

text \<open>
  Claim C8: for the closure built by \<open>dump_result\<close> and every record with a current
  iteration: when the iteration is not a multiple of \<open>every\<close> the closure returns
  \<open>None\<close> and \<open>dump\<close> is not called; when it is, and the template formats to
  \<open>outfile\<close>, \<open>dump\<close> is called once, with \<open>outfile\<close>, the closure returns \<open>None\<close> when
  the file is written, and the message \<open>Could not store {outfile}: {error}\<close> when
  \<open>dump\<close> raises an \<open>IOError\<close>.
\<close>

theorem dump_result_calls:
  assumes "dump_result filename every = Inr check" and "iters r \<noteq> []"
  shows "(last (iters r) mod every \<noteq> 0 \<longrightarrow> check r w = (Inr None, w)) \<and>
         (last (iters r) mod every = 0 \<and> py_format filename (last (iters r)) = Inr outfile \<longrightarrow>
            snd (check r w) = w @ [outfile] \<and>
            (dump r outfile = None \<longrightarrow> fst (check r w) = Inr None) \<and>
            (\<forall>m. dump r outfile = Some (Exc IOError m) \<longrightarrow>
               fst (check r w) = Inr (Some (''Could not store '' @ outfile @ '': '' @ m))))"
proof -
  from dump_result_Inr [OF assms(1)] have c: "check = dump_result_inner filename every" by simp
  note ix = iters_last [OF assms(2)]
  show ?thesis
    by (auto simp: c dump_result_inner_def ix split: option.splits)
qed

text \<open>
  \<open>every = 10\<close>: iteration 7, iteration 10, and iteration 10 with a \<open>dump\<close> that
  fails.
\<close>

theorem dump_result_calls_witness:
  "dump_result_inner ''oct_result.dump'' 10 (plain_result [5, 6, 7] []) [] = (Inr None, []) \<and>
   dump_result_inner ''oct_result.dump'' 10 (plain_result [8, 9, 10] []) [] =
     (Inr None, [''oct_result.dump'']) \<and>
   dump_result_inner ''oct_result.dump'' 10
     (failing_result [8, 9, 10] [] (Exc IOError ''disk full'')) [] =
     (Inr (Some ''Could not store oct_result.dump: disk full''), [''oct_result.dump''])"
proof -
  let ?f = "''oct_result.dump''"
  have d: "dump_result ?f 10 = Inr (dump_result_inner ?f 10)"
    by (simp add: dump_result_def)
  have p: "py_format ?f 10 = Inr ?f"
    by (simp add: py_format_def prepend_def)
  from dump_result_calls [OF d, where r = "plain_result [5, 6, 7] []" and w = "[]" and outfile = ?f]
  have 1: "dump_result_inner ?f 10 (plain_result [5, 6, 7] []) [] = (Inr None, [])"
    by (simp add: plain_result_def)
  from dump_result_calls [OF d, where r = "plain_result [8, 9, 10] []" and w = "[]" and outfile = ?f] p
  have 2: "dump_result_inner ?f 10 (plain_result [8, 9, 10] []) [] = (Inr None, [?f])"
    by (simp add: plain_result_def prod_eq_iff)
  from dump_result_calls [OF d, where r = "failing_result [8, 9, 10] [] (Exc IOError ''disk full'')"
      and w = "[]" and outfile = ?f] p
  have 3: "dump_result_inner ?f 10 (failing_result [8, 9, 10] [] (Exc IOError ''disk full'')) [] =
     (Inr (Some ''Could not store oct_result.dump: disk full''), [?f])"
    by (simp add: failing_result_def prod_eq_iff)
  from 1 2 3 show ?thesis by simp
qed

lemma prepend_Nil: "prepend [] x = x"
  by (simp add: prepend_def split: sum.splits)

lemma prepend_prepend: "prepend s (prepend t x) = prepend (s @ t) x"
  by (simp add: prepend_def split: sum.splits)

lemma scan_literal:
  "brace_free s \<Longrightarrow> format_scan (s @ t) None i = prepend s (format_scan t None i)"
  by (induction s) (simp_all add: brace_free_def prepend_Nil prepend_prepend)

lemma scan_field:
  "brace_free g \<Longrightarrow>
     format_scan (g @ CHR ''}'' # t) (Some f) i =
       (case format_field (f @ g) i of
          Inl e \<Rightarrow> Inl e
        | Inr s \<Rightarrow> prepend s (format_scan t None i))"
  by (induction g arbitrary: f) (simp_all add: brace_free_def)

lemma format_field_iter: "format_field (''iter:'' @ fs) i = format_int fs i"
  by (simp add: format_field_def)

lemma py_format_literal: "brace_free s \<Longrightarrow> py_format s i = Inr s"
  using scan_literal [of s "[]" i] by (simp add: py_format_def prepend_def)

lemma py_format_iter_field:
  assumes "brace_free pre" and "brace_free fs" and "brace_free post"
    and "format_int fs i = Inr num"
  shows "py_format (pre @ ''{iter:'' @ fs @ ''}'' @ post) i = Inr (pre @ num @ post)"
proof -
  have g: "brace_free (''iter:'' @ fs)"
    using assms(2) by (simp add: brace_free_def)
  have "format_scan (''{iter:'' @ fs @ ''}'' @ post) None i =
          format_scan ((''iter:'' @ fs) @ CHR ''}'' # post) (Some []) i"
    by simp
  also have "\<dots> = prepend num (format_scan post None i)"
  proof -
    have ff: "format_field ([] @ (''iter:'' @ fs)) i = Inr num"
      using assms(4) format_field_iter [of fs i] by simp
    show ?thesis unfolding scan_field [OF g] ff by simp
  qed
  also have "\<dots> = Inr (num @ post)"
    using py_format_literal [OF assms(3), of i] by (simp add: py_format_def prepend_def)
  finally have "format_scan (''{iter:'' @ fs @ ''}'' @ post) None i = Inr (num @ post)" .
  with scan_literal [OF assms(1), of "''{iter:'' @ fs @ ''}'' @ post" i]
  show ?thesis by (simp add: py_format_def prepend_def)
qed

lemma format_int_06d_200: "format_int ''06d'' 200 = Inr ''000200''"
  by code_simp

lemma format_int_06d_100: "format_int ''06d'' 100 = Inr ''000100''"
  by code_simp

text \<open>
  Claim C9, as stated, fails on its example: the keyword of \<open>format\<close> is \<open>iter\<close>, and a
  template with the field \<open>{iteration:06d}\<close> raises \<open>KeyError\<close> on the first call that
  is due, before \<open>dump\<close> is called.
\<close>

theorem dump_result_template_counterexample:
  "dump_result ''r_{iteration:06d}.dump'' 100 =
     Inr (dump_result_inner ''r_{iteration:06d}.dump'' 100) \<and>
   dump_result_inner ''r_{iteration:06d}.dump'' 100 (plain_result [100, 200] []) [] =
     (Inl (Exc KeyError (CHR 0x27 # ''iteration'' @ [CHR 0x27])), [])"
  by (simp add: dump_result_def dump_result_inner_def plain_result_def py_index_def
      py_format_def prepend_def format_field_def is_digit_def)

text \<open>
  Claim C9, amended: on every call where a dump is due, the closure formats the
  replacement field \<open>iter\<close> of the template with the current iteration number, by the
  format spec of the field: a template \<open>pre{iter:fs}post\<close> targets the path
  \<open>pre\<close>, the iteration formatted by \<open>fs\<close>, \<open>post\<close>, and a template without braces
  targets itself. In particular \<open>r_{iter:06d}.dump\<close> at iteration 200 targets
  \<open>r_000200.dump\<close>.
\<close>

theorem dump_result_target_path:
  assumes "dump_result filename every = Inr check" and "iters r \<noteq> []"
    and "last (iters r) mod every = 0"
  shows "(filename = pre @ ''{iter:'' @ fs @ ''}'' @ post \<and>
          brace_free pre \<and> brace_free fs \<and> brace_free post \<and>
          format_int fs (last (iters r)) = Inr num
            \<longrightarrow> snd (check r w) = w @ [pre @ num @ post]) \<and>
         (brace_free filename \<longrightarrow> snd (check r w) = w @ [filename])"
proof -
  from dump_result_Inr [OF assms(1)] have c: "check = dump_result_inner filename every" by simp
  note ix = iters_last [OF assms(2)]
  have path: "py_format filename (last (iters r)) = Inr outfile \<Longrightarrow>
      snd (check r w) = w @ [outfile]" for outfile
    using assms(3) by (simp add: c dump_result_inner_def ix split: option.splits)
  show ?thesis
  proof (intro conjI impI)
    assume a: "filename = pre @ ''{iter:'' @ fs @ ''}'' @ post \<and>
          brace_free pre \<and> brace_free fs \<and> brace_free post \<and>
          format_int fs (last (iters r)) = Inr num"
    then have "py_format filename (last (iters r)) = Inr (pre @ num @ post)"
      using py_format_iter_field [of pre fs post "last (iters r)" num] by simp
    then show "snd (check r w) = w @ [pre @ num @ post]" by (rule path)
  next
    assume "brace_free filename"
    then have "py_format filename (last (iters r)) = Inr filename"
      by (rule py_format_literal)
    then show "snd (check r w) = w @ [filename]" by (rule path)
  qed
qed

theorem dump_result_target_path_witness:
  "snd (dump_result_inner ''r_{iter:06d}.dump'' 100 (plain_result [100, 200] []) []) =
     [''r_000200.dump''] \<and>
   snd (dump_result_inner ''oct_result_{iter:06d}.dump'' 100 (plain_result [100] []) []) =
     [''oct_result_000100.dump''] \<and>
   snd (dump_result_inner ''oct_result.dump'' 10 (plain_result [10] []) []) =
     [''oct_result.dump'']"
proof -
  have d: "dump_result f 100 = Inr (dump_result_inner f 100)" for f
    by (simp add: dump_result_def)
  have d10: "dump_result ''oct_result.dump'' 10 = Inr (dump_result_inner ''oct_result.dump'' 10)"
    by (simp add: dump_result_def)
  from dump_result_target_path [OF d, where r = "plain_result [100, 200] []" and w = "[]"
      and pre = "''r_''" and fs = "''06d''" and post = "''.dump''" and num = "''000200''"]
    format_int_06d_200
  have 1: "snd (dump_result_inner ''r_{iter:06d}.dump'' 100 (plain_result [100, 200] []) []) =
     [''r_000200.dump'']"
    by (simp add: plain_result_def brace_free_def)
  from dump_result_target_path [OF d, where r = "plain_result [100] []" and w = "[]"
      and pre = "''oct_result_''" and fs = "''06d''" and post = "''.dump''" and num = "''000100''"]
    format_int_06d_100
  have 2: "snd (dump_result_inner ''oct_result_{iter:06d}.dump'' 100 (plain_result [100] []) []) =
     [''oct_result_000100.dump'']"
    by (simp add: plain_result_def brace_free_def)
  from dump_result_target_path [OF d10, where r = "plain_result [10] []" and w = "[]"]
  have 3: "snd (dump_result_inner ''oct_result.dump'' 10 (plain_result [10] []) []) =
     [''oct_result.dump'']"
    by (simp add: plain_result_def brace_free_def)
  from 1 2 3 show ?thesis by simp
qed

end
